theory Spec2Isabelle
  imports Main
begin

section \<open>Schema validation as the forms use it\<close>

text \<open>
  Both forms validate their data with a zod schema (\<^verbatim>\<open>z.object\<close>, \<^verbatim>\<open>z.string().min\<close>,
  \<^verbatim>\<open>z.string().email\<close>, \<^verbatim>\<open>z.enum\<close>, \<^verbatim>\<open>.refine\<close>) and read the issues of the thrown
  \<^verbatim>\<open>ZodError\<close> through \<^verbatim>\<open>err.errors\<close>. An issue is a path and a message; a schema is modelled
  by the list of issues it reports for a value, in the order zod reports them: the keys of
  an object in declaration order, then the refinement of the object. A string check that
  fails marks the value dirty without aborting, so the other keys and the refinement are
  still checked. A string is a list of \<^typ>\<open>char\<close>, one per code unit, so \<^const>\<open>length\<close> is
  the \<^verbatim>\<open>.length\<close> of the source.
\<close>

type_synonym issue = "string list \<times> string"

datatype zod_error = ZodError (errors: "issue list")

definition is_letter :: "char \<Rightarrow> bool" where
  "is_letter c = (let n = (of_char c :: nat) in (65 \<le> n \<and> n \<le> 90) \<or> (97 \<le> n \<and> n \<le> 122))"

definition is_digit :: "char \<Rightarrow> bool" where
  "is_digit c = (let n = (of_char c :: nat) in 48 \<le> n \<and> n \<le> 57)"

text \<open>
  The pattern behind \<^verbatim>\<open>.email()\<close> in zod 3, matched without regard to case:
  \<^verbatim>\<open>^(?!\.)(?!.*\.\.)([A-Z0-9_'+\-\.]*)[A-Z0-9_+-]@([A-Z0-9][A-Z0-9\-]*\.)+[A-Z]{2,}$\<close>.
  No character class of the pattern contains \<^verbatim>\<open>@\<close>, so the \<^verbatim>\<open>@\<close> it matches is the first one
  of the string: the local part is what precedes it and the domain is what follows. No
  class contains a line break either, so the second lookahead sees the whole of a string
  that the rest of the pattern matches.
\<close>

definition local_char :: "char \<Rightarrow> bool" where
  "local_char c = (is_letter c \<or> is_digit c \<or> c \<in> set ''_+-.'' \<or> c = CHR 0x27)"

definition local_last_char :: "char \<Rightarrow> bool" where
  "local_last_char c = (is_letter c \<or> is_digit c \<or> c \<in> set ''_+-'')"

fun has_dotdot :: "string \<Rightarrow> bool" where
  "has_dotdot (a # b # cs) = ((a = CHR ''.'' \<and> b = CHR ''.'') \<or> has_dotdot (b # cs))"
| "has_dotdot _ = False"

fun split_on :: "char \<Rightarrow> string \<Rightarrow> string list" where
  "split_on c [] = [[]]"
| "split_on c (x # xs) =
     (if x = c then [] # split_on c xs
      else (case split_on c xs of [] \<Rightarrow> [[x]] | p # ps \<Rightarrow> (x # p) # ps))"

definition domain_label :: "string \<Rightarrow> bool" where
  "domain_label l =
     (case l of [] \<Rightarrow> False
      | c # cs \<Rightarrow> (is_letter c \<or> is_digit c)
           \<and> list_all (\<lambda>d. is_letter d \<or> is_digit d \<or> d = CHR ''-'') cs)"

definition top_level :: "string \<Rightarrow> bool" where
  "top_level l = (2 \<le> length l \<and> list_all is_letter l)"

definition domain_ok :: "string \<Rightarrow> bool" where
  "domain_ok d =
     (let parts = split_on CHR ''.'' d
      in 2 \<le> length parts \<and> list_all domain_label (butlast parts) \<and> top_level (last parts))"

definition emailRegex :: "string \<Rightarrow> bool" where
  "emailRegex s =
     (case dropWhile (\<lambda>c. c \<noteq> CHR ''@'') s of
        [] \<Rightarrow> False
      | _ # domain \<Rightarrow>
          (case rev (takeWhile (\<lambda>c. c \<noteq> CHR ''@'') s) of
             [] \<Rightarrow> False
           | l # rev_init \<Rightarrow>
               \<not> (case s of [] \<Rightarrow> False | c # _ \<Rightarrow> c = CHR ''.'')
               \<and> \<not> has_dotdot s
               \<and> list_all local_char rev_init
               \<and> local_last_char l
               \<and> domain_ok domain))"

text \<open>The checks of a string schema give the messages of the checks that fail.\<close>

definition z_min :: "nat \<Rightarrow> string \<Rightarrow> string \<Rightarrow> string list" where
  "z_min n message s = (if length s < n then [message] else [])"

definition z_email :: "string \<Rightarrow> string \<Rightarrow> string list" where
  "z_email message s = (if emailRegex s then [] else [message])"

text \<open>\<^verbatim>\<open>z.object\<close> reports the issues of the value under a key with that key as their path.\<close>

definition at_key :: "string \<Rightarrow> string list \<Rightarrow> issue list" where
  "at_key k messages = map (\<lambda>m. ([k], m)) messages"

text \<open>\<^verbatim>\<open>.refine(check, {message, path})\<close> reports one issue at the given path when the check fails.\<close>

definition z_refine :: "('d \<Rightarrow> bool) \<Rightarrow> string \<Rightarrow> string list \<Rightarrow> 'd \<Rightarrow> issue list" where
  "z_refine check message path d = (if check d then [] else [(path, message)])"

text \<open>\<^verbatim>\<open>schema.parse\<close> returns the value when there is no issue and throws otherwise.\<close>

definition z_parse :: "('d \<Rightarrow> issue list) \<Rightarrow> 'd \<Rightarrow> zod_error + 'd" where
  "z_parse schema d = (case schema d of [] \<Rightarrow> Inr d | i # is \<Rightarrow> Inl (ZodError (i # is)))"

text \<open>
  \<^verbatim>\<open>err.errors.forEach((error) => { errors[error.path[0]] = error.message })\<close>: a later
  issue on the same key replaces an earlier one; the first element of an empty path is
  \<^verbatim>\<open>undefined\<close>, which as a key is the string of that name.
\<close>

definition path0 :: "string list \<Rightarrow> string" where
  "path0 p = (case p of [] \<Rightarrow> ''undefined'' | k # _ \<Rightarrow> k)"

definition collect_errors :: "issue list \<Rightarrow> (string \<rightharpoonup> string)" where
  "collect_errors is = foldl (\<lambda>errs error. errs(path0 (fst error) \<mapsto> snd error)) Map.empty is"

section \<open>The login form\<close>

record LoginFormData =
  email :: string
  password :: string

definition loginSchema :: "LoginFormData \<Rightarrow> issue list" where
  "loginSchema d =
     at_key ''email'' (z_email ''Please enter a valid email address'' (LoginFormData.email d))
     @ at_key ''password''
         (z_min 8 ''Password must be at least 8 characters'' (LoginFormData.password d))"

text \<open>The state of a form component: one field for each \<^verbatim>\<open>useState\<close>.\<close>

record 'd form_state =
  isLoading :: bool
  error :: "string option"
  showPassword :: bool
  formData :: 'd
  formErrors :: "string \<rightharpoonup> string"

text \<open>\<^verbatim>\<open>validateForm\<close> returns its boolean and the state after its \<^verbatim>\<open>setFormErrors\<close>.\<close>

definition validateForm_login ::
  "(LoginFormData, 'z) form_state_scheme \<Rightarrow> bool \<times> (LoginFormData, 'z) form_state_scheme" where
  "validateForm_login s =
     (case z_parse loginSchema (formData s) of
        Inr _ \<Rightarrow> (True, s\<lparr>formErrors := Map.empty\<rparr>)
      | Inl err \<Rightarrow> (False, s\<lparr>formErrors := collect_errors (errors err)\<rparr>))"

text \<open>
  What \<^verbatim>\<open>handleSubmit\<close> does to the outside: it cancels the browser's own submission,
  posts through \<^verbatim>\<open>clientFetch.post\<close>, navigates with \<^verbatim>\<open>router.push\<close> and (on signup) writes
  to the console. The body of a request is the object literal of the source, key by key.
\<close>

datatype json_value = JString string | JNumber int

type_synonym body = "(string \<times> json_value) list"

datatype effect = PreventDefault | Post string body | RouterPush string | ConsoleLog string

text \<open>How the promise of \<^verbatim>\<open>clientFetch.post\<close> settles: the \<^verbatim>\<open>await\<close> returns or throws.\<close>

datatype settled = Fulfilled | Failed

text \<open>
  \<^verbatim>\<open>handleSubmit\<close> up to its \<^verbatim>\<open>await\<close>: the new state, the effects so far, and whether a
  request was sent and is awaited.
\<close>

definition handleSubmit_start_login ::
  "(LoginFormData, 'z) form_state_scheme
     \<Rightarrow> (LoginFormData, 'z) form_state_scheme \<times> effect list \<times> bool" where
  "handleSubmit_start_login s =
     (case validateForm_login s of
        (False, s1) \<Rightarrow> (s1, [PreventDefault], False)
      | (True, s1) \<Rightarrow>
          (s1\<lparr>isLoading := True, error := None\<rparr>,
           [PreventDefault,
            Post ''/auth/login''
              [(''email'', JString (LoginFormData.email (formData s))),
               (''password'', JString (LoginFormData.password (formData s)))]],
           True))"

text \<open>\<^verbatim>\<open>handleSubmit\<close> from the point where the awaited promise settles.\<close>

definition handleSubmit_settle_login ::
  "settled \<Rightarrow> (LoginFormData, 'z) form_state_scheme
     \<Rightarrow> (LoginFormData, 'z) form_state_scheme \<times> effect list" where
  "handleSubmit_settle_login r s =
     (case r of
        Fulfilled \<Rightarrow> (s\<lparr>isLoading := False\<rparr>, [RouterPush ''/''])
      | Failed \<Rightarrow>
          (s\<lparr>error := Some ''Invalid email or password. Please try again.'',
             isLoading := False\<rparr>, []))"

definition handleSubmit_login ::
  "settled \<Rightarrow> (LoginFormData, 'z) form_state_scheme
     \<Rightarrow> (LoginFormData, 'z) form_state_scheme \<times> effect list" where
  "handleSubmit_login r s =
     (case handleSubmit_start_login s of
        (s1, es, False) \<Rightarrow> (s1, es)
      | (s1, es, True) \<Rightarrow>
          (case handleSubmit_settle_login r s1 of (s2, es2) \<Rightarrow> (s2, es @ es2)))"

text \<open>
  \<^verbatim>\<open>handleChange\<close>: the inputs of the login form are named \<^verbatim>\<open>email\<close> and \<^verbatim>\<open>password\<close>; the
  error of the edited field, when there is a non-empty one, is cleared.
\<close>

definition handleChange_login ::
  "string \<times> string \<Rightarrow> (LoginFormData, 'z) form_state_scheme
     \<Rightarrow> (LoginFormData, 'z) form_state_scheme" where
  "handleChange_login e s =
     (case e of (name, val) \<Rightarrow>
        (let d = formData s;
             d' = (if name = ''email'' then d\<lparr>LoginFormData.email := val\<rparr>
                   else if name = ''password'' then d\<lparr>LoginFormData.password := val\<rparr>
                   else d);
             s1 = s\<lparr>formData := d'\<rparr>
         in (case formErrors s name of
               None \<Rightarrow> s1
             | Some m \<Rightarrow> if m = [] then s1 else s1\<lparr>formErrors := (formErrors s)(name := None)\<rparr>)))"

definition LoginForm_init :: "LoginFormData form_state" where
  "LoginForm_init =
     \<lparr>isLoading = False, error = None, showPassword = False,
      formData = \<lparr>LoginFormData.email = [], LoginFormData.password = []\<rparr>,
      formErrors = Map.empty\<rparr>"

section \<open>The signup form\<close>

datatype role = client | employee

record SignupFormData =
  name :: string
  email :: string
  password :: string
  confirmPassword :: string
  role :: role

text \<open>
  The role of the form data is one of the two values of the enum (the type of the state
  admits no other, and \<^verbatim>\<open>handleRoleChange\<close> stores no other), so \<^verbatim>\<open>z.enum\<close> reports nothing, as
  \<^verbatim>\<open>z.string()\<close> without a check does for \<^verbatim>\<open>confirmPassword\<close>.
\<close>

definition signupSchema :: "SignupFormData \<Rightarrow> issue list" where
  "signupSchema d =
     (at_key ''name'' (z_min 2 ''Name must be at least 2 characters'' (name d))
      @ at_key ''email'' (z_email ''Please enter a valid email address'' (email d))
      @ at_key ''password'' (z_min 8 ''Password must be at least 8 characters'' (password d))
      @ at_key ''confirmPassword'' []
      @ at_key ''role'' [])
     @ z_refine (\<lambda>data. password data = confirmPassword data)
         ''Passwords do not match'' [''confirmPassword''] d"

record 'd signup_form_state = "'d form_state" +
  showConfirmPassword :: bool

definition validateForm_signup ::
  "(SignupFormData, 'z) form_state_scheme \<Rightarrow> bool \<times> (SignupFormData, 'z) form_state_scheme" where
  "validateForm_signup s =
     (case z_parse signupSchema (formData s) of
        Inr _ \<Rightarrow> (True, s\<lparr>formErrors := Map.empty\<rparr>)
      | Inl err \<Rightarrow> (False, s\<lparr>formErrors := collect_errors (errors err)\<rparr>))"

definition handleSubmit_start_signup ::
  "(SignupFormData, 'z) form_state_scheme
     \<Rightarrow> (SignupFormData, 'z) form_state_scheme \<times> effect list \<times> bool" where
  "handleSubmit_start_signup s =
     (case validateForm_signup s of
        (False, s1) \<Rightarrow> (s1, [PreventDefault], False)
      | (True, s1) \<Rightarrow>
          (let roleId = (if role (formData s) = client then 3 else 2)
           in (s1\<lparr>isLoading := True, error := None\<rparr>,
               [PreventDefault,
                Post ''/auth/signup''
                  [(''name'', JString (name (formData s))),
                   (''email'', JString (email (formData s))),
                   (''password'', JString (password (formData s))),
                   (''password_confirmation'', JString (confirmPassword (formData s))),
                   (''role_id'', JNumber roleId)]],
               True)))"

definition handleSubmit_settle_signup ::
  "settled \<Rightarrow> (SignupFormData, 'z) form_state_scheme
     \<Rightarrow> (SignupFormData, 'z) form_state_scheme \<times> effect list" where
  "handleSubmit_settle_signup r s =
     (case r of
        Fulfilled \<Rightarrow>
          (s\<lparr>isLoading := False\<rparr>, [ConsoleLog ''Signup successful'', RouterPush ''/''])
      | Failed \<Rightarrow>
          (s\<lparr>error := Some ''Registration failed. Please try again.'',
             isLoading := False\<rparr>, []))"

definition handleSubmit_signup ::
  "settled \<Rightarrow> (SignupFormData, 'z) form_state_scheme
     \<Rightarrow> (SignupFormData, 'z) form_state_scheme \<times> effect list" where
  "handleSubmit_signup r s =
     (case handleSubmit_start_signup s of
        (s1, es, False) \<Rightarrow> (s1, es)
      | (s1, es, True) \<Rightarrow>
          (case handleSubmit_settle_signup r s1 of (s2, es2) \<Rightarrow> (s2, es @ es2)))"

text \<open>
  The edits of the signup form: \<^verbatim>\<open>handleChange\<close> on one of the four named inputs, or
  \<^verbatim>\<open>handleRoleChange\<close> from one of the two role buttons.
\<close>

datatype signup_edit = Change string string | RoleChange string

definition handleChange_signup ::
  "string \<times> string \<Rightarrow> (SignupFormData, 'z) form_state_scheme
     \<Rightarrow> (SignupFormData, 'z) form_state_scheme" where
  "handleChange_signup e s =
     (case e of (field, val) \<Rightarrow>
        (let d = formData s;
             d' = (if field = ''name'' then d\<lparr>name := val\<rparr>
                   else if field = ''email'' then d\<lparr>email := val\<rparr>
                   else if field = ''password'' then d\<lparr>password := val\<rparr>
                   else if field = ''confirmPassword'' then d\<lparr>confirmPassword := val\<rparr>
                   else d);
             s1 = s\<lparr>formData := d'\<rparr>
         in (case formErrors s field of
               None \<Rightarrow> s1
             | Some m \<Rightarrow> if m = [] then s1 else s1\<lparr>formErrors := (formErrors s)(field := None)\<rparr>)))"

definition handleRoleChange ::
  "string \<Rightarrow> (SignupFormData, 'z) form_state_scheme \<Rightarrow> (SignupFormData, 'z) form_state_scheme" where
  "handleRoleChange v s =
     (if v = ''client'' \<or> v = ''employee'' then
        (let s1 = s\<lparr>formData :=
                     (formData s)\<lparr>role := (if v = ''client'' then client else employee)\<rparr>\<rparr>
         in (case formErrors s ''role'' of
               None \<Rightarrow> s1
             | Some m \<Rightarrow>
                 if m = [] then s1 else s1\<lparr>formErrors := (formErrors s)(''role'' := None)\<rparr>))
      else s)"

definition edit_signup ::
  "signup_edit \<Rightarrow> (SignupFormData, 'z) form_state_scheme \<Rightarrow> (SignupFormData, 'z) form_state_scheme" where
  "edit_signup e s =
     (case e of Change field val \<Rightarrow> handleChange_signup (field, val) s
      | RoleChange v \<Rightarrow> handleRoleChange v s)"

definition SignupForm_init :: "SignupFormData signup_form_state" where
  "SignupForm_init =
     \<lparr>isLoading = False, error = None, showPassword = False,
      formData = \<lparr>name = [], email = [], password = [], confirmPassword = [],
                  role = client\<rparr>,
      formErrors = Map.empty, showConfirmPassword = False\<rparr>"

section \<open>Observing a submission\<close>

text \<open>The requests posted and the navigations made, read off the effects in order.\<close>

fun posts :: "effect list \<Rightarrow> (string \<times> body) list" where
  "posts [] = []"
| "posts (Post url b # es) = (url, b) # posts es"
| "posts (_ # es) = posts es"

fun redirects :: "effect list \<Rightarrow> string list" where
  "redirects [] = []"
| "redirects (RouterPush url # es) = url # redirects es"
| "redirects (_ # es) = redirects es"

section \<open>The life of a form component\<close>

text \<open>
  The submit button of both forms is rendered with \<^verbatim>\<open>disabled={isLoading}\<close>. A disabled
  submit button submits nothing, neither on a click nor on Enter in a field, so
  \<^verbatim>\<open>handleSubmit\<close> runs only while the button is enabled.
\<close>

definition submit_disabled :: "('d, 'z) form_state_scheme \<Rightarrow> bool" where
  "submit_disabled s = isLoading s"

text \<open>
  What can happen to a mounted form: the user edits it, the user submits it, or the
  promise of a request that is in flight settles. A component is its state together with
  the number of requests in flight: a submission adds the requests that \<^verbatim>\<open>handleSubmit\<close>
  posts before its \<^verbatim>\<open>await\<close>, and a settled request is taken off as the rest of
  \<^verbatim>\<open>handleSubmit\<close> runs.
\<close>

datatype 'e event = Edit 'e | Submit | Settle settled

fun step_login ::
  "(string \<times> string) event \<Rightarrow> (LoginFormData, 'z) form_state_scheme \<times> nat
     \<Rightarrow> (LoginFormData, 'z) form_state_scheme \<times> nat" where
  "step_login (Edit e) (s, n) = (handleChange_login e s, n)"
| "step_login Submit (s, n) =
     (if submit_disabled s then (s, n)
      else (case handleSubmit_start_login s of
              (s1, es, awaited) \<Rightarrow> (s1, n + length (posts es))))"
| "step_login (Settle r) (s, n) =
     (if n = 0 then (s, n) else (fst (handleSubmit_settle_login r s), n - 1))"

fun step_signup ::
  "signup_edit event \<Rightarrow> (SignupFormData, 'z) form_state_scheme \<times> nat
     \<Rightarrow> (SignupFormData, 'z) form_state_scheme \<times> nat" where
  "step_signup (Edit e) (s, n) = (edit_signup e s, n)"
| "step_signup Submit (s, n) =
     (if submit_disabled s then (s, n)
      else (case handleSubmit_start_signup s of
              (s1, es, awaited) \<Rightarrow> (s1, n + length (posts es))))"
| "step_signup (Settle r) (s, n) =
     (if n = 0 then (s, n) else (fst (handleSubmit_settle_signup r s), n - 1))"

definition run_login ::
  "(string \<times> string) event list \<Rightarrow> LoginFormData form_state \<times> nat" where
  "run_login evs = foldl (\<lambda>c e. step_login e c) (LoginForm_init, 0) evs"

definition run_signup ::
  "signup_edit event list \<Rightarrow> SignupFormData signup_form_state \<times> nat" where
  "run_signup evs = foldl (\<lambda>c e. step_signup e c) (SignupForm_init, 0) evs"

section \<open>The bootstrap of the backend\<close>

text \<open>
  \<^verbatim>\<open>bootstrap/app.php\<close> configures the middleware of the application in the callback it
  gives to \<^verbatim>\<open>withMiddleware\<close>: \<^verbatim>\<open>alias\<close> stores the alias map and \<^verbatim>\<open>priority\<close> the priority
  list of the configuration object. The five classes of \<^verbatim>\<open>App\Http\Middleware\<close> it names
  are the values of a datatype.
\<close>

datatype middleware_class = JwtAuth | JwtGuest | isAdmin | isEmployee | isClient

record Middleware =
  customAliases :: "(string \<times> middleware_class) list"
  priorityOrder :: "middleware_class list"

definition Middleware_new :: Middleware where
  "Middleware_new = \<lparr>customAliases = [], priorityOrder = []\<rparr>"

definition Middleware_alias :: "(string \<times> middleware_class) list \<Rightarrow> Middleware \<Rightarrow> Middleware" where
  "Middleware_alias aliases m = m\<lparr>customAliases := aliases\<rparr>"

definition Middleware_priority :: "middleware_class list \<Rightarrow> Middleware \<Rightarrow> Middleware" where
  "Middleware_priority priority m = m\<lparr>priorityOrder := priority\<rparr>"

definition withMiddleware :: "Middleware \<Rightarrow> Middleware" where
  "withMiddleware middleware =
     Middleware_priority [JwtAuth, JwtGuest, isAdmin, isEmployee, isClient]
       (Middleware_alias
          [(''jwt.auth'', JwtAuth),
           (''jwt.guest'', JwtGuest),
           (''admin'', isAdmin),
           (''employee'', isEmployee),
           (''client'', isClient)]
          middleware)"

definition bootstrap :: Middleware where
  "bootstrap = withMiddleware Middleware_new"

text \<open>
  Modelled from the spec: the sorter that orders the middleware of a route is the
  framework's and is not under \<^verbatim>\<open>src/\<close>. The spec says that the priority list determines
  the evaluation order when several middleware apply to one route: the middleware of the
  route that are in the priority list run in the order of that list, each once. The spec
  is silent on middleware outside the list; here they follow, each once, in the order of
  the route. The list that the bootstrap registers holds all five classes, so with it
  there are none.
\<close>

fun uniqueMiddleware :: "'a list \<Rightarrow> 'a list" where
  "uniqueMiddleware [] = []"
| "uniqueMiddleware (x # xs) = x # filter (\<lambda>y. y \<noteq> x) (uniqueMiddleware xs)"

definition sortMiddleware ::
  "middleware_class list \<Rightarrow> middleware_class list \<Rightarrow> middleware_class list" where
  "sortMiddleware priorityMap middlewares =
     filter (\<lambda>c. c \<in> set middlewares) priorityMap
     @ filter (\<lambda>c. c \<notin> set priorityMap) (uniqueMiddleware middlewares)"

section \<open>The guards of a route\<close>

text \<open>
  Modelled from the spec: the classes \<^verbatim>\<open>JwtAuth\<close>, \<^verbatim>\<open>JwtGuest\<close>, \<^verbatim>\<open>isAdmin\<close>, \<^verbatim>\<open>isEmployee\<close>
  and \<^verbatim>\<open>isClient\<close> of \<^verbatim>\<open>App\Http\Middleware\<close> are not under \<^verbatim>\<open>src/\<close>, nor is the validation
  of a token. The spec says: \<^verbatim>\<open>JwtAuth\<close> (must be authenticated) and \<^verbatim>\<open>JwtGuest\<close> (must not be
  authenticated) are entry checks, the three role checks restrict by role after
  authentication, and a request that fails a guard is rejected. The validation of a token
  is a parameter that gives the role of the user of a valid token.
\<close>

datatype user_role = AdminUser | EmployeeUser | ClientUser

record request =
  token :: "string option"

datatype 'a response = Denied middleware_class | ServerError | Passed 'a

definition authenticate :: "(string \<Rightarrow> user_role option) \<Rightarrow> request \<Rightarrow> user_role option" where
  "authenticate verify req = (case token req of None \<Rightarrow> None | Some t \<Rightarrow> verify t)"

definition handle ::
  "(string \<Rightarrow> user_role option) \<Rightarrow> middleware_class \<Rightarrow> request
     \<Rightarrow> (request \<Rightarrow> 'a response) \<Rightarrow> 'a response" where
  "handle verify c req next =
     (let user = authenticate verify req;
          pass = (case c of
                    JwtAuth \<Rightarrow> user \<noteq> None
                  | JwtGuest \<Rightarrow> user = None
                  | isAdmin \<Rightarrow> user = Some AdminUser
                  | isEmployee \<Rightarrow> user = Some EmployeeUser
                  | isClient \<Rightarrow> user = Some ClientUser)
      in if pass then next req else Denied c)"

text \<open>
  A route names its middleware by alias. The aliases are resolved through the alias map
  of the configuration (a name the map does not bind is no middleware, and the request
  ends in an error), ordered by the priority list and wrapped around the action of the
  route, the first one outermost.
\<close>

record 'a route =
  middleware :: "string list"
  action :: "request \<Rightarrow> 'a"

definition resolveMiddleware :: "Middleware \<Rightarrow> string list \<Rightarrow> middleware_class list option" where
  "resolveMiddleware cfg names = those (map (map_of (customAliases cfg)) names)"

definition dispatch ::
  "(string \<Rightarrow> user_role option) \<Rightarrow> Middleware \<Rightarrow> 'a route \<Rightarrow> request \<Rightarrow> 'a response" where
  "dispatch verify cfg rt req =
     (case resolveMiddleware cfg (middleware rt) of
        None \<Rightarrow> ServerError
      | Some cs \<Rightarrow>
          foldr (\<lambda>c next r. handle verify c r next)
            (sortMiddleware (priorityOrder cfg) cs)
            (\<lambda>r. Passed (action rt r)) req)"

section \<open>Sample form states\<close>

definition login_sample :: "string \<Rightarrow> string \<Rightarrow> LoginFormData form_state" where
  "login_sample e p =
     LoginForm_init\<lparr>formData := \<lparr>LoginFormData.email = e, LoginFormData.password = p\<rparr>\<rparr>"

definition signup_sample ::
  "string \<Rightarrow> string \<Rightarrow> string \<Rightarrow> string \<Rightarrow> role \<Rightarrow> SignupFormData signup_form_state" where
  "signup_sample n e p c r =
     SignupForm_init\<lparr>formData :=
       \<lparr>name = n, email = e, password = p, confirmPassword = c, role = r\<rparr>\<rparr>"

text \<open>A token check that knows one token, of an administrator, and two routes.\<close>

definition sample_verify :: "string \<Rightarrow> user_role option" where
  "sample_verify t = (if t = ''good'' then Some AdminUser else None)"

definition admin_route :: "string route" where
  "admin_route = \<lparr>middleware = [''admin'', ''jwt.auth''], action = (\<lambda>r. ''dashboard'')\<rparr>"

definition guest_route :: "string route" where
  "guest_route = \<lparr>middleware = [''jwt.guest''], action = (\<lambda>r. ''login page'')\<rparr>"

text \<open>The invariant of a component: at most one request in flight, and one exactly while loading.\<close>

definition one_in_flight :: "('d, 'z) form_state_scheme \<times> nat \<Rightarrow> bool" where
  "one_in_flight c = (case c of (s, n) \<Rightarrow> n \<le> 1 \<and> (n = 1 \<longleftrightarrow> isLoading s))"

section \<open>Properties of validation\<close>

lemmas schema_defs = z_parse_def at_key_def z_min_def z_email_def z_refine_def
  collect_errors_def path0_def

lemma emailRegex_needs_at: "CHR ''@'' \<notin> set s \<Longrightarrow> \<not> emailRegex s"
proof -
  assume "CHR ''@'' \<notin> set s"
  then have no_at: "dropWhile (\<lambda>c. c \<noteq> CHR ''@'') s = []"
    by (induction s) auto
  show ?thesis
    unfolding emailRegex_def no_at by simp
qed

lemma emailRegex_sample: "emailRegex ''ann@example.com''"
  by code_simp

lemma validateForm_login_iff:
  "fst (validateForm_login s) \<longleftrightarrow>
     emailRegex (LoginFormData.email (formData s))
     \<and> 8 \<le> length (LoginFormData.password (formData s))"
  by (auto simp: validateForm_login_def loginSchema_def schema_defs
      split: sum.splits list.splits)

lemma validateForm_signup_iff:
  "fst (validateForm_signup s) \<longleftrightarrow>
     2 \<le> length (name (formData s)) \<and> emailRegex (email (formData s))
     \<and> 8 \<le> length (password (formData s))
     \<and> password (formData s) = confirmPassword (formData s)"
  by (auto simp: validateForm_signup_def signupSchema_def schema_defs
      split: sum.splits list.splits)

lemma validateForm_login_keeps:
  "isLoading (snd (validateForm_login s)) = isLoading s"
  "error (snd (validateForm_login s)) = error s"
  "formData (snd (validateForm_login s)) = formData s"
  by (auto simp: validateForm_login_def split: sum.splits)

lemma validateForm_signup_keeps:
  "isLoading (snd (validateForm_signup s)) = isLoading s"
  "error (snd (validateForm_signup s)) = error s"
  "formData (snd (validateForm_signup s)) = formData s"
  by (auto simp: validateForm_signup_def split: sum.splits)

lemma login_sample_valid: "fst (validateForm_login (login_sample ''ann@example.com'' ''12345678''))"
  by (simp add: validateForm_login_iff login_sample_def emailRegex_sample)

lemma signup_sample_valid:
  "fst (validateForm_signup
     (signup_sample ''Ann'' ''ann@example.com'' ''12345678'' ''12345678'' r))"
  by (simp add: validateForm_signup_iff signup_sample_def emailRegex_sample)

text \<open>
  C3. A login form whose email has no \<^verbatim>\<open>@\<close> fails validation: \<^verbatim>\<open>validateForm\<close> returns false
  and the errors it records hold the email-format message under the key \<^verbatim>\<open>email\<close>.
\<close>

theorem login_email_without_at_rejected:
  "CHR ''@'' \<notin> set (LoginFormData.email (formData s)) \<Longrightarrow>
     fst (validateForm_login s) = False
     \<and> formErrors (snd (validateForm_login s)) ''email''
         = Some ''Please enter a valid email address''"
  using emailRegex_needs_at [of "LoginFormData.email (formData s)"]
  by (auto simp: validateForm_login_def loginSchema_def schema_defs
      split: sum.splits list.splits)

theorem login_email_without_at_rejected_witness:
  "CHR ''@'' \<notin> set (LoginFormData.email (formData (login_sample ''ann.example.com'' ''12345678'')))
   \<and> fst (validateForm_login (login_sample ''ann.example.com'' ''12345678'')) = False
   \<and> formErrors (snd (validateForm_login (login_sample ''ann.example.com'' ''12345678''))) ''email''
       = Some ''Please enter a valid email address''"
  using login_email_without_at_rejected [of "login_sample ''ann.example.com'' ''12345678''"]
  by (simp add: login_sample_def)

text \<open>
  C2. A signup form whose password and confirmation differ fails validation:
  \<^verbatim>\<open>validateForm\<close> returns false and records the message \<^verbatim>\<open>Passwords do not match\<close> under the
  key \<^verbatim>\<open>confirmPassword\<close>, whatever the other fields hold.
\<close>

theorem signup_password_mismatch_rejected:
  "password (formData s) \<noteq> confirmPassword (formData s) \<Longrightarrow>
     fst (validateForm_signup s) = False
     \<and> formErrors (snd (validateForm_signup s)) ''confirmPassword''
         = Some ''Passwords do not match''"
  by (auto simp: validateForm_signup_def signupSchema_def schema_defs
      split: sum.splits list.splits)

theorem signup_password_mismatch_rejected_witness:
  "password (formData (signup_sample ''Ann'' ''ann@example.com'' ''12345678'' ''12345679'' client))
     \<noteq> confirmPassword
         (formData (signup_sample ''Ann'' ''ann@example.com'' ''12345678'' ''12345679'' client))
   \<and> fst (validateForm_signup
        (signup_sample ''Ann'' ''ann@example.com'' ''12345678'' ''12345679'' client)) = False
   \<and> formErrors (snd (validateForm_signup
        (signup_sample ''Ann'' ''ann@example.com'' ''12345678'' ''12345679'' client)))
        ''confirmPassword'' = Some ''Passwords do not match''"
  using signup_password_mismatch_rejected
    [of "signup_sample ''Ann'' ''ann@example.com'' ''12345678'' ''12345679'' client"]
  by (simp add: signup_sample_def)

text \<open>
  C10. A signup form whose name has fewer than two characters fails validation with the
  name-length message under the key \<^verbatim>\<open>name\<close>, also when email, password, confirmation and
  role are all valid.
\<close>

theorem signup_short_name_rejected:
  "length (name (formData s)) < 2 \<Longrightarrow>
     fst (validateForm_signup s) = False
     \<and> formErrors (snd (validateForm_signup s)) ''name''
         = Some ''Name must be at least 2 characters''"
  by (auto simp: validateForm_signup_def signupSchema_def schema_defs
      split: sum.splits list.splits)

theorem signup_short_name_rejected_witness:
  "length (name (formData (signup_sample ''A'' ''ann@example.com'' ''12345678'' ''12345678'' client))) < 2
   \<and> emailRegex (email (formData
        (signup_sample ''A'' ''ann@example.com'' ''12345678'' ''12345678'' client)))
   \<and> fst (validateForm_signup
        (signup_sample ''A'' ''ann@example.com'' ''12345678'' ''12345678'' client)) = False
   \<and> formErrors (snd (validateForm_signup
        (signup_sample ''A'' ''ann@example.com'' ''12345678'' ''12345678'' client))) ''name''
       = Some ''Name must be at least 2 characters''"
  using signup_short_name_rejected
    [of "signup_sample ''A'' ''ann@example.com'' ''12345678'' ''12345678'' client"]
  by (simp add: signup_sample_def emailRegex_sample)

section \<open>Properties of a submission\<close>

text \<open>
  C1. A signup submission that passes validation posts one request, to \<^verbatim>\<open>/auth/signup\<close>,
  and the \<^verbatim>\<open>role_id\<close> of its body is 3 when the selected role is \<^verbatim>\<open>client\<close> and 2 when it
  is \<^verbatim>\<open>employee\<close>, however the request settles.
\<close>

theorem signup_role_id_sent:
  "fst (validateForm_signup s) \<Longrightarrow>
     \<exists>b. posts (snd (handleSubmit_signup r s)) = [(''/auth/signup'', b)]
        \<and> (role (formData s) = client \<longrightarrow> map_of b ''role_id'' = Some (JNumber 3))
        \<and> (role (formData s) = employee \<longrightarrow> map_of b ''role_id'' = Some (JNumber 2))"
  by (cases "validateForm_signup s"; cases r; cases "role (formData s)")
     (auto simp: handleSubmit_signup_def handleSubmit_start_signup_def
       handleSubmit_settle_signup_def)

theorem signup_role_id_sent_witness:
  "fst (validateForm_signup
     (signup_sample ''Ann'' ''ann@example.com'' ''12345678'' ''12345678'' employee))
   \<and> (\<exists>b. posts (snd (handleSubmit_signup Fulfilled
              (signup_sample ''Ann'' ''ann@example.com'' ''12345678'' ''12345678'' employee)))
            = [(''/auth/signup'', b)]
          \<and> map_of b ''role_id'' = Some (JNumber 2))"
  using signup_role_id_sent [OF signup_sample_valid [of employee], of Fulfilled]
    signup_sample_valid [of employee]
  by (simp add: signup_sample_def)

text \<open>
  C4. A submission that fails the schema check, on either form, posts nothing, and leaves
  the loading flag and the error banner as they were.
\<close>

theorem invalid_submission_sends_nothing:
  "(\<not> fst (validateForm_login s) \<longrightarrow>
      posts (snd (handleSubmit_login r s)) = []
      \<and> isLoading (fst (handleSubmit_login r s)) = isLoading s
      \<and> error (fst (handleSubmit_login r s)) = error s)
   \<and> (\<not> fst (validateForm_signup t) \<longrightarrow>
      posts (snd (handleSubmit_signup r t)) = []
      \<and> isLoading (fst (handleSubmit_signup r t)) = isLoading t
      \<and> error (fst (handleSubmit_signup r t)) = error t)"
  by (auto simp: handleSubmit_login_def handleSubmit_start_login_def validateForm_login_def
       handleSubmit_signup_def handleSubmit_start_signup_def validateForm_signup_def
       split: sum.splits)

theorem invalid_submission_sends_nothing_witness:
  "\<not> fst (validateForm_login (login_sample ''ann@example.com'' ''1234567''))
   \<and> posts (snd (handleSubmit_login Fulfilled (login_sample ''ann@example.com'' ''1234567''))) = []
   \<and> \<not> isLoading (fst (handleSubmit_login Fulfilled (login_sample ''ann@example.com'' ''1234567'')))
   \<and> error (fst (handleSubmit_login Fulfilled (login_sample ''ann@example.com'' ''1234567''))) = None
   \<and> \<not> fst (validateForm_signup
          (signup_sample ''Ann'' ''ann@example.com'' ''12345678'' ''12345679'' client))
   \<and> posts (snd (handleSubmit_signup Fulfilled
          (signup_sample ''Ann'' ''ann@example.com'' ''12345678'' ''12345679'' client))) = []
   \<and> \<not> isLoading (fst (handleSubmit_signup Fulfilled
          (signup_sample ''Ann'' ''ann@example.com'' ''12345678'' ''12345679'' client)))
   \<and> error (fst (handleSubmit_signup Fulfilled
          (signup_sample ''Ann'' ''ann@example.com'' ''12345678'' ''12345679'' client))) = None"
  using invalid_submission_sends_nothing
    [of "login_sample ''ann@example.com'' ''1234567''" Fulfilled
        "signup_sample ''Ann'' ''ann@example.com'' ''12345678'' ''12345679'' client"]
  by (simp add: validateForm_login_iff validateForm_signup_iff login_sample_def
      signup_sample_def LoginForm_init_def SignupForm_init_def)

text \<open>
  C5. A submission that passes validation, on either form: when the request succeeds the
  user is sent to \<^verbatim>\<open>/\<close>; when it fails the error banner is set to the one fixed message of
  the form and no navigation happens.
\<close>

theorem submission_outcome:
  "(fst (validateForm_login s) \<longrightarrow>
      redirects (snd (handleSubmit_login Fulfilled s)) = [''/'']
      \<and> error (fst (handleSubmit_login Failed s))
          = Some ''Invalid email or password. Please try again.''
      \<and> redirects (snd (handleSubmit_login Failed s)) = [])
   \<and> (fst (validateForm_signup t) \<longrightarrow>
      redirects (snd (handleSubmit_signup Fulfilled t)) = [''/'']
      \<and> error (fst (handleSubmit_signup Failed t))
          = Some ''Registration failed. Please try again.''
      \<and> redirects (snd (handleSubmit_signup Failed t)) = [])"
  by (cases "validateForm_login s"; cases "validateForm_signup t")
     (auto simp: handleSubmit_login_def handleSubmit_start_login_def
       handleSubmit_settle_login_def handleSubmit_signup_def handleSubmit_start_signup_def
       handleSubmit_settle_signup_def)

theorem submission_outcome_witness:
  "fst (validateForm_login (login_sample ''ann@example.com'' ''12345678''))
   \<and> redirects (snd (handleSubmit_login Fulfilled
        (login_sample ''ann@example.com'' ''12345678''))) = [''/'']
   \<and> error (fst (handleSubmit_login Failed (login_sample ''ann@example.com'' ''12345678'')))
       \<noteq> None
   \<and> redirects (snd (handleSubmit_login Failed
        (login_sample ''ann@example.com'' ''12345678''))) = []
   \<and> fst (validateForm_signup
        (signup_sample ''Ann'' ''ann@example.com'' ''12345678'' ''12345678'' client))
   \<and> redirects (snd (handleSubmit_signup Fulfilled
        (signup_sample ''Ann'' ''ann@example.com'' ''12345678'' ''12345678'' client))) = [''/'']
   \<and> error (fst (handleSubmit_signup Failed
        (signup_sample ''Ann'' ''ann@example.com'' ''12345678'' ''12345678'' client))) \<noteq> None
   \<and> redirects (snd (handleSubmit_signup Failed
        (signup_sample ''Ann'' ''ann@example.com'' ''12345678'' ''12345678'' client))) = []"
  using submission_outcome
    [of "login_sample ''ann@example.com'' ''12345678''"
        "signup_sample ''Ann'' ''ann@example.com'' ''12345678'' ''12345678'' client"]
    login_sample_valid signup_sample_valid [of client]
  by simp

section \<open>Properties of a mounted form\<close>

lemma handleChange_login_isLoading: "isLoading (handleChange_login e s) = isLoading s"
  by (cases e) (auto simp: handleChange_login_def Let_def split: option.splits)

lemma edit_signup_isLoading: "isLoading (edit_signup e s) = isLoading s"
  by (cases e)
     (auto simp: edit_signup_def handleChange_signup_def handleRoleChange_def Let_def
       split: option.splits)

lemma start_login_effect:
  "handleSubmit_start_login s = (s1, es, awaited) \<Longrightarrow>
     isLoading s1 = (if awaited then True else isLoading s)
     \<and> length (posts es) = (if awaited then 1 else 0)
     \<and> awaited = fst (validateForm_login s)"
  by (cases "validateForm_login s")
     (use validateForm_login_keeps(1) [of s] in
       \<open>auto simp: handleSubmit_start_login_def split: bool.splits\<close>)

lemma start_signup_effect:
  "handleSubmit_start_signup s = (s1, es, awaited) \<Longrightarrow>
     isLoading s1 = (if awaited then True else isLoading s)
     \<and> length (posts es) = (if awaited then 1 else 0)
     \<and> awaited = fst (validateForm_signup s)"
  by (cases "validateForm_signup s")
     (use validateForm_signup_keeps(1) [of s] in
       \<open>auto simp: handleSubmit_start_signup_def Let_def split: bool.splits\<close>)

lemma start_login_valid:
  "fst (validateForm_login s) \<Longrightarrow>
     (case handleSubmit_start_login s of
        (s1, es, awaited) \<Rightarrow>
          awaited \<and> isLoading s1 \<and> submit_disabled s1
          \<and> (\<exists>b. posts es = [(''/auth/login'', b)]))"
  by (cases "validateForm_login s")
     (auto simp: handleSubmit_start_login_def submit_disabled_def)

lemma start_signup_valid:
  "fst (validateForm_signup s) \<Longrightarrow>
     (case handleSubmit_start_signup s of
        (s1, es, awaited) \<Rightarrow>
          awaited \<and> isLoading s1 \<and> submit_disabled s1
          \<and> (\<exists>b. posts es = [(''/auth/signup'', b)]))"
  by (cases "validateForm_signup s")
     (auto simp: handleSubmit_start_signup_def submit_disabled_def Let_def)

lemma settle_login_isLoading: "\<not> isLoading (fst (handleSubmit_settle_login r s))"
  by (cases r) (auto simp: handleSubmit_settle_login_def)

lemma settle_signup_isLoading: "\<not> isLoading (fst (handleSubmit_settle_signup r s))"
  by (cases r) (auto simp: handleSubmit_settle_signup_def)

lemma step_login_inv: "one_in_flight c \<Longrightarrow> one_in_flight (step_login e c)"
proof (cases c)
  case (Pair s n)
  assume inv: "one_in_flight c"
  show ?thesis
  proof (cases e)
    case (Edit x)
    with Pair inv show ?thesis
      by (simp add: one_in_flight_def handleChange_login_isLoading)
  next
    case Submit
    show ?thesis
    proof (cases "handleSubmit_start_login s")
      case (fields s1 es awaited)
      from start_login_effect [OF fields] Pair inv Submit fields show ?thesis
        by (auto simp: one_in_flight_def submit_disabled_def split: if_splits)
    qed
  next
    case (Settle r)
    with Pair inv show ?thesis
      by (auto simp: one_in_flight_def settle_login_isLoading)
  qed
qed

lemma step_signup_inv: "one_in_flight c \<Longrightarrow> one_in_flight (step_signup e c)"
proof (cases c)
  case (Pair s n)
  assume inv: "one_in_flight c"
  show ?thesis
  proof (cases e)
    case (Edit x)
    with Pair inv show ?thesis
      by (simp add: one_in_flight_def edit_signup_isLoading)
  next
    case Submit
    show ?thesis
    proof (cases "handleSubmit_start_signup s")
      case (fields s1 es awaited)
      from start_signup_effect [OF fields] Pair inv Submit fields show ?thesis
        by (auto simp: one_in_flight_def submit_disabled_def split: if_splits)
    qed
  next
    case (Settle r)
    with Pair inv show ?thesis
      by (auto simp: one_in_flight_def settle_signup_isLoading)
  qed
qed

lemma foldl_login_inv:
  "one_in_flight c \<Longrightarrow> one_in_flight (foldl (\<lambda>c e. step_login e c) c evs)"
  by (induction evs arbitrary: c) (simp_all add: step_login_inv)

lemma foldl_signup_inv:
  "one_in_flight c \<Longrightarrow> one_in_flight (foldl (\<lambda>c e. step_signup e c) c evs)"
  by (induction evs arbitrary: c) (simp_all add: step_signup_inv)

lemma step_login_submit_valid:
  "\<not> submit_disabled s \<Longrightarrow> fst (validateForm_login s) \<Longrightarrow>
     snd (step_login Submit (s, n)) = Suc n \<and> isLoading (fst (step_login Submit (s, n)))"
  using start_login_valid [of s]
  by (cases "handleSubmit_start_login s") auto

lemma step_signup_submit_valid:
  "\<not> submit_disabled s \<Longrightarrow> fst (validateForm_signup s) \<Longrightarrow>
     snd (step_signup Submit (s, n)) = Suc n \<and> isLoading (fst (step_signup Submit (s, n)))"
  using start_signup_valid [of s]
  by (cases "handleSubmit_start_signup s") auto

text \<open>
  C6. On either form, the start of a submission that passes validation posts exactly one
  request, sets \<^verbatim>\<open>isLoading\<close> and with it disables the submit button; delivered to an
  enabled form it raises the number of requests in flight by one. After any sequence of
  edits, submissions and settled requests on a freshly mounted form, at most one request
  is in flight (posted and not yet settled); one is in flight exactly when \<^verbatim>\<open>isLoading\<close>
  is true, which is exactly when the submit button is disabled. The handler that runs
  when a request settles, fulfilled or failed, leaves \<^verbatim>\<open>isLoading\<close> false.
\<close>

theorem one_request_in_flight:
  "(fst (validateForm_login s) \<longrightarrow>
      (case handleSubmit_start_login s of
         (s1, es, awaited) \<Rightarrow>
           awaited \<and> isLoading s1 \<and> submit_disabled s1
           \<and> (\<exists>b. posts es = [(''/auth/login'', b)]))
      \<and> (\<not> submit_disabled s \<longrightarrow>
           snd (step_login Submit (s, n)) = Suc n
           \<and> isLoading (fst (step_login Submit (s, n)))))
   \<and> (fst (validateForm_signup t) \<longrightarrow>
      (case handleSubmit_start_signup t of
         (t1, es, awaited) \<Rightarrow>
           awaited \<and> isLoading t1 \<and> submit_disabled t1
           \<and> (\<exists>b. posts es = [(''/auth/signup'', b)]))
      \<and> (\<not> submit_disabled t \<longrightarrow>
           snd (step_signup Submit (t, n)) = Suc n
           \<and> isLoading (fst (step_signup Submit (t, n)))))
   \<and> (case run_login evs of (s', k) \<Rightarrow>
      k \<le> 1 \<and> (k = 1 \<longleftrightarrow> isLoading s') \<and> (k = 1 \<longleftrightarrow> submit_disabled s'))
   \<and> (case run_signup evs' of (t', k) \<Rightarrow>
      k \<le> 1 \<and> (k = 1 \<longleftrightarrow> isLoading t') \<and> (k = 1 \<longleftrightarrow> submit_disabled t'))
   \<and> \<not> isLoading (fst (handleSubmit_settle_login r s))
   \<and> \<not> isLoading (fst (handleSubmit_settle_signup r t))"
proof -
  have "one_in_flight (run_login evs)"
    unfolding run_login_def
    by (rule foldl_login_inv) (simp add: one_in_flight_def LoginForm_init_def)
  then have login: "case run_login evs of (s', k) \<Rightarrow>
      k \<le> 1 \<and> (k = 1 \<longleftrightarrow> isLoading s') \<and> (k = 1 \<longleftrightarrow> submit_disabled s')"
    by (auto simp: one_in_flight_def submit_disabled_def split: prod.splits)
  have "one_in_flight (run_signup evs')"
    unfolding run_signup_def
    by (rule foldl_signup_inv) (simp add: one_in_flight_def SignupForm_init_def)
  then have signup: "case run_signup evs' of (t', k) \<Rightarrow>
      k \<le> 1 \<and> (k = 1 \<longleftrightarrow> isLoading t') \<and> (k = 1 \<longleftrightarrow> submit_disabled t')"
    by (auto simp: one_in_flight_def submit_disabled_def split: prod.splits)
  show ?thesis
    using login signup start_login_valid [of s] start_signup_valid [of t]
      step_login_submit_valid [of s n] step_signup_submit_valid [of t n]
      settle_login_isLoading [of r s] settle_signup_isLoading [of r t]
    by - (intro conjI impI, simp_all)
qed

lemma run_login_sample:
  "snd (run_login [Edit (''email'', ''ann@example.com''), Edit (''password'', ''12345678''),
          Submit, Edit (''email'', ''bob''), Submit]) = 1"
  "snd (run_login [Edit (''email'', ''ann@example.com''), Edit (''password'', ''12345678''),
          Submit, Edit (''email'', ''bob''), Submit, Settle Failed]) = 0"
  by code_simp+

lemma run_signup_sample:
  "snd (run_signup [Edit (Change ''name'' ''Ann''), Edit (Change ''email'' ''ann@example.com''),
          Edit (Change ''password'' ''12345678''),
          Edit (Change ''confirmPassword'' ''12345678''), Edit (RoleChange ''employee''),
          Submit, Submit]) = 1"
  "snd (run_signup [Edit (Change ''name'' ''Ann''), Edit (Change ''email'' ''ann@example.com''),
          Edit (Change ''password'' ''12345678''),
          Edit (Change ''confirmPassword'' ''12345678''), Edit (RoleChange ''employee''),
          Submit, Submit, Settle Fulfilled]) = 0"
  by code_simp+

theorem one_request_in_flight_witness:
  "fst (validateForm_login (login_sample ''ann@example.com'' ''12345678''))
   \<and> \<not> submit_disabled (login_sample ''ann@example.com'' ''12345678'')
   \<and> snd (step_login Submit (login_sample ''ann@example.com'' ''12345678'', 0)) = 1
   \<and> isLoading (fst (step_login Submit (login_sample ''ann@example.com'' ''12345678'', 0)))
   \<and> fst (validateForm_signup
        (signup_sample ''Ann'' ''ann@example.com'' ''12345678'' ''12345678'' client))
   \<and> \<not> submit_disabled
        (signup_sample ''Ann'' ''ann@example.com'' ''12345678'' ''12345678'' client)
   \<and> snd (step_signup Submit
        (signup_sample ''Ann'' ''ann@example.com'' ''12345678'' ''12345678'' client, 0)) = 1
   \<and> isLoading (fst (step_signup Submit
        (signup_sample ''Ann'' ''ann@example.com'' ''12345678'' ''12345678'' client, 0)))
   \<and> snd (run_login [Edit (''email'', ''ann@example.com''), Edit (''password'', ''12345678''),
          Submit, Edit (''email'', ''bob''), Submit]) = 1
   \<and> isLoading (fst (run_login [Edit (''email'', ''ann@example.com''),
          Edit (''password'', ''12345678''), Submit, Edit (''email'', ''bob''), Submit]))
   \<and> snd (run_login [Edit (''email'', ''ann@example.com''), Edit (''password'', ''12345678''),
          Submit, Edit (''email'', ''bob''), Submit, Settle Failed]) = 0
   \<and> \<not> isLoading (fst (run_login [Edit (''email'', ''ann@example.com''),
          Edit (''password'', ''12345678''), Submit, Edit (''email'', ''bob''), Submit,
          Settle Failed]))
   \<and> snd (run_signup [Edit (Change ''name'' ''Ann''),
          Edit (Change ''email'' ''ann@example.com''), Edit (Change ''password'' ''12345678''),
          Edit (Change ''confirmPassword'' ''12345678''), Edit (RoleChange ''employee''),
          Submit, Submit]) = 1
   \<and> isLoading (fst (run_signup [Edit (Change ''name'' ''Ann''),
          Edit (Change ''email'' ''ann@example.com''), Edit (Change ''password'' ''12345678''),
          Edit (Change ''confirmPassword'' ''12345678''), Edit (RoleChange ''employee''),
          Submit, Submit]))
   \<and> snd (run_signup [Edit (Change ''name'' ''Ann''),
          Edit (Change ''email'' ''ann@example.com''), Edit (Change ''password'' ''12345678''),
          Edit (Change ''confirmPassword'' ''12345678''), Edit (RoleChange ''employee''),
          Submit, Submit, Settle Fulfilled]) = 0
   \<and> \<not> isLoading (fst (run_signup [Edit (Change ''name'' ''Ann''),
          Edit (Change ''email'' ''ann@example.com''), Edit (Change ''password'' ''12345678''),
          Edit (Change ''confirmPassword'' ''12345678''), Edit (RoleChange ''employee''),
          Submit, Submit, Settle Fulfilled]))"
  using run_login_sample run_signup_sample login_sample_valid signup_sample_valid [of client]
    one_request_in_flight
      [of "login_sample ''ann@example.com'' ''12345678''" 0
          "signup_sample ''Ann'' ''ann@example.com'' ''12345678'' ''12345678'' client"
          "[Edit (''email'', ''ann@example.com''), Edit (''password'', ''12345678''),
            Submit, Edit (''email'', ''bob''), Submit]"
          "[Edit (Change ''name'' ''Ann''), Edit (Change ''email'' ''ann@example.com''),
            Edit (Change ''password'' ''12345678''),
            Edit (Change ''confirmPassword'' ''12345678''), Edit (RoleChange ''employee''),
            Submit, Submit]" Fulfilled]
    one_request_in_flight
      [of "login_sample ''ann@example.com'' ''12345678''" 0
          "signup_sample ''Ann'' ''ann@example.com'' ''12345678'' ''12345678'' client"
          "[Edit (''email'', ''ann@example.com''), Edit (''password'', ''12345678''),
            Submit, Edit (''email'', ''bob''), Submit, Settle Failed]"
          "[Edit (Change ''name'' ''Ann''), Edit (Change ''email'' ''ann@example.com''),
            Edit (Change ''password'' ''12345678''),
            Edit (Change ''confirmPassword'' ''12345678''), Edit (RoleChange ''employee''),
            Submit, Submit, Settle Fulfilled]" Fulfilled]
  by (simp add: case_prod_beta submit_disabled_def login_sample_def signup_sample_def
      LoginForm_init_def SignupForm_init_def)

section \<open>Properties of the bootstrap\<close>

lemma all_classes: "c \<in> set [JwtAuth, JwtGuest, isAdmin, isEmployee, isClient]"
  by (cases c) simp_all

lemma priorityOrder_bootstrap:
  "priorityOrder bootstrap = [JwtAuth, JwtGuest, isAdmin, isEmployee, isClient]"
  by (simp add: bootstrap_def withMiddleware_def Middleware_priority_def Middleware_alias_def)

lemma customAliases_bootstrap:
  "customAliases bootstrap =
     [(''jwt.auth'', JwtAuth), (''jwt.guest'', JwtGuest), (''admin'', isAdmin),
      (''employee'', isEmployee), (''client'', isClient)]"
  by (simp add: bootstrap_def withMiddleware_def Middleware_priority_def Middleware_alias_def)

lemma sortMiddleware_bootstrap:
  "sortMiddleware (priorityOrder bootstrap) cs =
     filter (\<lambda>c. c \<in> set cs) [JwtAuth, JwtGuest, isAdmin, isEmployee, isClient]"
proof -
  have "filter (\<lambda>c. c \<notin> set [JwtAuth, JwtGuest, isAdmin, isEmployee, isClient])
          (uniqueMiddleware cs) = []"
    using all_classes by (simp add: filter_empty_conv del: set_simps)
  then show ?thesis
    by (simp add: sortMiddleware_def priorityOrder_bootstrap del: set_simps)
qed

text \<open>
  C7. The priority list that the bootstrap registers is \<^verbatim>\<open>JwtAuth\<close>, \<^verbatim>\<open>JwtGuest\<close>, \<^verbatim>\<open>isAdmin\<close>,
  \<^verbatim>\<open>isEmployee\<close>, \<^verbatim>\<open>isClient\<close>, in this order; the middleware of a route therefore run as
  the part of this list that the route uses, in the order of the list.
\<close>

theorem priority_order_registered:
  "priorityOrder bootstrap = [JwtAuth, JwtGuest, isAdmin, isEmployee, isClient]
   \<and> sortMiddleware (priorityOrder bootstrap) cs =
       filter (\<lambda>c. c \<in> set cs) [JwtAuth, JwtGuest, isAdmin, isEmployee, isClient]"
  using priorityOrder_bootstrap sortMiddleware_bootstrap by simp

text \<open>
  C8. The alias map that the bootstrap registers binds \<^verbatim>\<open>jwt.auth\<close>, \<^verbatim>\<open>jwt.guest\<close>,
  \<^verbatim>\<open>admin\<close>, \<^verbatim>\<open>employee\<close> and \<^verbatim>\<open>client\<close> to \<^verbatim>\<open>JwtAuth\<close>, \<^verbatim>\<open>JwtGuest\<close>, \<^verbatim>\<open>isAdmin\<close>,
  \<^verbatim>\<open>isEmployee\<close> and \<^verbatim>\<open>isClient\<close>, and binds no other name.
\<close>

theorem alias_map_registered:
  "map_of (customAliases bootstrap) =
     [''jwt.auth'' \<mapsto> JwtAuth, ''jwt.guest'' \<mapsto> JwtGuest, ''admin'' \<mapsto> isAdmin,
      ''employee'' \<mapsto> isEmployee, ''client'' \<mapsto> isClient]
   \<and> dom (map_of (customAliases bootstrap)) =
       {''jwt.auth'', ''jwt.guest'', ''admin'', ''employee'', ''client''}"
  by (auto simp: customAliases_bootstrap fun_eq_iff split: if_splits)

section \<open>Properties of the guards\<close>

lemma those_map_mem:
  "those (map f xs) = Some ys \<Longrightarrow> x \<in> set xs \<Longrightarrow> f x = Some y \<Longrightarrow> y \<in> set ys"
  by (induction xs arbitrary: ys) (auto split: option.splits)

lemma resolve_mem:
  "resolveMiddleware bootstrap names = Some cs \<Longrightarrow> a \<in> set names \<Longrightarrow>
     map_of (customAliases bootstrap) a = Some c \<Longrightarrow> c \<in> set cs"
  unfolding resolveMiddleware_def by (rule those_map_mem)

lemma dispatch_auth:
  assumes "resolveMiddleware bootstrap (middleware rt) = Some cs" "JwtAuth \<in> set cs"
    "authenticate verify req = None"
  shows "dispatch verify bootstrap rt req = Denied JwtAuth"
  using assms by (simp add: dispatch_def sortMiddleware_bootstrap handle_def)

lemma dispatch_guest:
  assumes "resolveMiddleware bootstrap (middleware rt) = Some cs" "JwtGuest \<in> set cs"
    "authenticate verify req \<noteq> None"
  shows "dispatch verify bootstrap rt req = Denied JwtGuest"
  using assms by (auto simp: dispatch_def sortMiddleware_bootstrap handle_def)

lemma dispatch_jwt_auth:
  assumes "''jwt.auth'' \<in> set (middleware rt)" "authenticate verify req = None"
  shows "(\<forall>x. dispatch verify bootstrap rt req \<noteq> Passed x)
    \<and> (resolveMiddleware bootstrap (middleware rt) \<noteq> None \<longrightarrow>
         dispatch verify bootstrap rt req = Denied JwtAuth)"
proof (cases "resolveMiddleware bootstrap (middleware rt)")
  case None
  then show ?thesis by (simp add: dispatch_def)
next
  case (Some cs)
  have "JwtAuth \<in> set cs"
    using resolve_mem [OF Some assms(1), of JwtAuth] by (simp add: customAliases_bootstrap)
  from dispatch_auth [OF Some this assms(2)] Some show ?thesis by simp
qed

lemma dispatch_jwt_guest:
  assumes "''jwt.guest'' \<in> set (middleware rt)" "authenticate verify req \<noteq> None"
  shows "(\<forall>x. dispatch verify bootstrap rt req \<noteq> Passed x)
    \<and> (resolveMiddleware bootstrap (middleware rt) \<noteq> None \<longrightarrow>
         dispatch verify bootstrap rt req = Denied JwtGuest)"
proof (cases "resolveMiddleware bootstrap (middleware rt)")
  case None
  then show ?thesis by (simp add: dispatch_def)
next
  case (Some cs)
  have "JwtGuest \<in> set cs"
    using resolve_mem [OF Some assms(1), of JwtGuest] by (simp add: customAliases_bootstrap)
  from dispatch_guest [OF Some this assms(2)] Some show ?thesis by simp
qed

text \<open>
  C9. A request without a valid token to a route guarded by \<^verbatim>\<open>jwt.auth\<close> never reaches the
  action of the route: it is denied by \<^verbatim>\<open>JwtAuth\<close> (or ends in an error when the route names
  an alias that is not registered). A request with a valid token to a route guarded by
  \<^verbatim>\<open>jwt.guest\<close> never reaches the action either: it is denied by \<^verbatim>\<open>JwtGuest\<close>.
\<close>

theorem guards_reject:
  "(''jwt.auth'' \<in> set (middleware rt) \<and> authenticate verify req = None \<longrightarrow>
      (\<forall>x. dispatch verify bootstrap rt req \<noteq> Passed x)
      \<and> (resolveMiddleware bootstrap (middleware rt) \<noteq> None \<longrightarrow>
           dispatch verify bootstrap rt req = Denied JwtAuth))
   \<and> (''jwt.guest'' \<in> set (middleware rt') \<and> authenticate verify req' \<noteq> None \<longrightarrow>
      (\<forall>x. dispatch verify bootstrap rt' req' \<noteq> Passed x)
      \<and> (resolveMiddleware bootstrap (middleware rt') \<noteq> None \<longrightarrow>
           dispatch verify bootstrap rt' req' = Denied JwtGuest))"
  using dispatch_jwt_auth [of rt verify req] dispatch_jwt_guest [of rt' verify req']
  by blast

theorem guards_reject_witness:
  "''jwt.auth'' \<in> set (middleware admin_route)
   \<and> authenticate sample_verify \<lparr>token = Some ''stale''\<rparr> = None
   \<and> resolveMiddleware bootstrap (middleware admin_route) \<noteq> None
   \<and> dispatch sample_verify bootstrap admin_route \<lparr>token = Some ''stale''\<rparr> = Denied JwtAuth
   \<and> ''jwt.guest'' \<in> set (middleware guest_route)
   \<and> authenticate sample_verify \<lparr>token = Some ''good''\<rparr> \<noteq> None
   \<and> resolveMiddleware bootstrap (middleware guest_route) \<noteq> None
   \<and> dispatch sample_verify bootstrap guest_route \<lparr>token = Some ''good''\<rparr> = Denied JwtGuest"
  using guards_reject
    [of admin_route sample_verify "\<lparr>token = Some ''stale''\<rparr>"
        guest_route "\<lparr>token = Some ''good''\<rparr>"]
  by (simp add: admin_route_def guest_route_def sample_verify_def authenticate_def
      resolveMiddleware_def customAliases_bootstrap)

end
